theory Spec2Isabelle
  imports Main "HOL-Library.Sublist"
begin

section \<open>Text primitives of the Python runtime\<close>

text \<open>
  Python strings are modelled as \<^typ>\<open>string\<close>, one \<^typ>\<open>char\<close> per character of
  the ASCII range; a character outside that range is carried along as its UTF-8 bytes,
  unchanged (it is no digit, no whitespace and has no other case). The substring test \<^verbatim>\<open>k in s\<close> is
  \<^term>\<open>sublist k s\<close>: \<open>s\<close> is \<open>ps @ k @ ss\<close> for some \<open>ps\<close> and \<open>ss\<close>.
\<close>

definition uppercase :: string where
  "uppercase = ''ABCDEFGHIJKLMNOPQRSTUVWXYZ''"

definition lowercase :: string where
  "lowercase = ''abcdefghijklmnopqrstuvwxyz''"

definition lower_char :: "char \<Rightarrow> char" where
  "lower_char c = (case map_of (zip uppercase lowercase) c of Some l \<Rightarrow> l | None \<Rightarrow> c)"

text \<open>\<^verbatim>\<open>str.lower()\<close>\<close>

definition lower :: "string \<Rightarrow> string" where
  "lower s = map lower_char s"

text \<open>The class \<^verbatim>\<open>\d\<close> of the regular expression engine.\<close>

definition is_digit :: "char \<Rightarrow> bool" where
  "is_digit c = (c \<in> set ''0123456789'')"

text \<open>
  Whitespace as \<^verbatim>\<open>str.strip()\<close> and the class \<^verbatim>\<open>\s\<close> see it: tab, line feed,
  vertical tab, form feed, carriage return, the four separators 0x1C to 0x1F, and space.
\<close>

definition is_space :: "char \<Rightarrow> bool" where
  "is_space c = (c \<in> set [CHR 0x09, CHR 0x0A, CHR 0x0B, CHR 0x0C, CHR 0x0D,
                            CHR 0x1C, CHR 0x1D, CHR 0x1E, CHR 0x1F, CHR 0x20])"

text \<open>\<^verbatim>\<open>str.strip()\<close>: leading and trailing whitespace removed.\<close>

definition strip :: "string \<Rightarrow> string" where
  "strip s = rev (dropWhile is_space (rev (dropWhile is_space s)))"

text \<open>\<^verbatim>\<open>int(ds)\<close> on a string of decimal digits.\<close>

definition digit_val :: "char \<Rightarrow> nat" where
  "digit_val c = of_char c - 48"

definition int_of_digits :: "string \<Rightarrow> nat" where
  "int_of_digits ds = foldl (\<lambda>n c. 10 * n + digit_val c) 0 ds"

section \<open>Diameter parser\<close>

text \<open>
  \<^verbatim>\<open>re.search(r'(\d+)\s*mm', text)\<close>, as the backtracking engine runs it. The tail
  \<^verbatim>\<open>\s*mm\<close> takes one more whitespace character when it can and, when the rest then
  fails, falls back to matching \<^verbatim>\<open>mm\<close> where it stands.
\<close>

fun match_ws_mm :: "string \<Rightarrow> bool" where
  "match_ws_mm [] = False"
| "match_ws_mm (c # cs) =
     (if is_space c then (match_ws_mm cs \<or> prefix ''mm'' (c # cs))
      else prefix ''mm'' (c # cs))"

text \<open>
  The group \<^verbatim>\<open>(\d+)\<close> is greedy: with \<open>acc\<close> the digits taken so far it takes the
  next digit first, and only when the rest fails from there does it stop at \<open>acc\<close>
  (which must hold one digit at least) and hand over to the tail.
\<close>

fun match_digits :: "string \<Rightarrow> string \<Rightarrow> string option" where
  "match_digits acc [] = None"
| "match_digits acc (c # cs) =
     (if is_digit c then
        (case match_digits (acc @ [c]) cs of
           Some g \<Rightarrow> Some g
         | None \<Rightarrow> if acc \<noteq> [] \<and> match_ws_mm (c # cs) then Some acc else None)
      else if acc \<noteq> [] \<and> match_ws_mm (c # cs) then Some acc else None)"

text \<open>The pattern tried at the start of \<open>s\<close>; the result is group 1.\<close>

definition match_here :: "string \<Rightarrow> string option" where
  "match_here s = match_digits [] s"

text \<open>\<^verbatim>\<open>re.search\<close>: the start positions are tried from left to right.\<close>

fun re_search :: "string \<Rightarrow> string option" where
  "re_search [] = match_here []"
| "re_search (c # cs) =
     (case match_here (c # cs) of Some g \<Rightarrow> Some g | None \<Rightarrow> re_search cs)"

text \<open>
  \<^verbatim>\<open>
  def extract_dia(text):
      text = str(text).lower()
      match = re.search(r'(\d+)\s*mm', text)
      if match:
          return int(match.group(1))
      return None
  \<close>
\<close>

definition extract_dia :: "string \<Rightarrow> nat option" where
  "extract_dia text =
     (case re_search (lower text) of
        Some g \<Rightarrow> Some (int_of_digits g)
      | None \<Rightarrow> None)"


section \<open>Spreadsheet values and frames\<close>

text \<open>
  A cell as the spreadsheet reader delivers it: a text, an integer, or the missing value
  NaN. (Numbers with a fractional part are floating point and are left out.)
\<close>

datatype cell = Str string | Num int | NaN

fun digits_of_nat :: "nat \<Rightarrow> string" where
  "digits_of_nat n =
     (if n < 10 then [char_of (48 + n)]
      else digits_of_nat (n div 10) @ [char_of (48 + n mod 10)])"

declare digits_of_nat.simps [simp del]

text \<open>\<^verbatim>\<open>str(v)\<close> and \<^verbatim>\<open>.astype(str)\<close> on one value.\<close>

fun py_str :: "cell \<Rightarrow> string" where
  "py_str (Str s) = s"
| "py_str (Num n) = (if n < 0 then ''-'' @ digits_of_nat (nat (- n)) else digits_of_nat (nat n))"
| "py_str NaN = ''nan''"

text \<open>Truth value of a column label that may be \<^verbatim>\<open>None\<close>, as \<^verbatim>\<open>not col\<close> tests it.\<close>

fun truthy :: "cell option \<Rightarrow> bool" where
  "truthy None = False"
| "truthy (Some (Str s)) = (s \<noteq> [])"
| "truthy (Some (Num n)) = (n \<noteq> 0)"
| "truthy (Some NaN) = True"

text \<open>
  A frame read with a header row: the column labels in sheet order, and the data rows,
  each holding its cells in column order.
\<close>

record dataframe =
  columns :: "cell list"
  rows :: "cell list list"

text \<open>
  A row as a series indexed by the column labels; where the row is shorter than the
  label list the cell is missing (NaN), as the reader pads it.
\<close>

definition row_series :: "cell list \<Rightarrow> cell list \<Rightarrow> (cell \<times> cell) list" where
  "row_series cols r = zip cols (r @ replicate (length cols - length r) NaN)"

text \<open>\<^verbatim>\<open>row[col]\<close>\<close>

definition get :: "(cell \<times> cell) list \<Rightarrow> cell \<Rightarrow> cell" where
  "get r col = (case map_of r col of Some v \<Rightarrow> v | None \<Rightarrow> NaN)"

text \<open>\<^verbatim>\<open>df[col] = f(df[col])\<close>, seen on one row.\<close>

definition assign :: "cell \<Rightarrow> (cell \<Rightarrow> cell) \<Rightarrow> (cell \<times> cell) list \<Rightarrow> (cell \<times> cell) list" where
  "assign col f r = map (\<lambda>(l, v). if l = col then (l, f v) else (l, v)) r"

section \<open>Column resolver\<close>

text \<open>
  \<^verbatim>\<open>
  def find_column(columns, keywords):
      for col in columns:
          if any(k in str(col).lower() for k in keywords):
              return col
      return None
  \<close>
\<close>

fun find_column :: "cell list \<Rightarrow> string list \<Rightarrow> cell option" where
  "find_column [] keywords = None"
| "find_column (col # cols) keywords =
     (if list_ex (\<lambda>k. sublist k (lower (py_str col))) keywords then Some col
      else find_column cols keywords)"

section \<open>Header locator\<close>

text \<open>
  \<^verbatim>\<open>
  row = df_raw.iloc[i].astype(str).str.lower()
  if any("desc" in cell or "item" in cell for cell in row) and any("unit" in cell for cell in row):
  \<close>
\<close>

definition is_header_row :: "cell list \<Rightarrow> bool" where
  "is_header_row cells =
     (let row = map (\<lambda>v. lower (py_str v)) cells
      in list_ex (\<lambda>cell. sublist ''desc'' cell \<or> sublist ''item'' cell) row \<and>
         list_ex (\<lambda>cell. sublist ''unit'' cell) row)"

text \<open>The loop over \<^verbatim>\<open>range(min(30, len(df_raw)))\<close>, leaving at the first hit.\<close>

fun scan_header :: "cell list list \<Rightarrow> nat list \<Rightarrow> nat option" where
  "scan_header df_raw [] = None"
| "scan_header df_raw (i # is) =
     (if is_header_row (df_raw ! i) then Some i else scan_header df_raw is)"

definition locate_header :: "cell list list \<Rightarrow> nat option" where
  "locate_header df_raw = scan_header df_raw [0..<min 30 (length df_raw)]"

section \<open>Unit normalizer and row classifier\<close>

text \<open>\<^verbatim>\<open>Series.replace\<close> with a dictionary: a value equal to a key becomes that key's value.\<close>

definition replace :: "(string \<times> string) list \<Rightarrow> string \<Rightarrow> string" where
  "replace table v = (case map_of table v of Some w \<Rightarrow> w | None \<Rightarrow> v)"

definition unit_synonyms :: "(string \<times> string) list" where
  "unit_synonyms =
     [(''per metre'', ''meter''), (''rm'', ''meter''), (''rmt'', ''meter''),
      (''mtr'', ''meter''), (''mtrs'', ''meter'')]"

text \<open>\<^verbatim>\<open>.astype(str).str.strip().str.lower().replace({...})\<close> on one cell of the unit column.\<close>

definition normalize_unit :: "cell \<Rightarrow> cell" where
  "normalize_unit v = Str (replace unit_synonyms (lower (strip (py_str v))))"

definition pipe_keywords :: "string list" where
  "pipe_keywords = [''pipe'', ''di'', ''ci'', ''m.s'', ''k-7'', ''k-9'', ''hdpe'', ''pvc'', ''upvc'']"

text \<open>
  \<^verbatim>\<open>
  def is_pipe_row(row):
      desc = str(row[desc_col]).lower()
      return any(x in desc for x in ["pipe", "di", "ci", "m.s", "k-7", "k-9", "hdpe", "pvc", "upvc"])
  \<close>
\<close>

definition is_pipe_row :: "cell \<Rightarrow> (cell \<times> cell) list \<Rightarrow> bool" where
  "is_pipe_row desc_col r =
     (let desc = lower (py_str (get r desc_col))
      in list_ex (\<lambda>x. sublist x desc) pipe_keywords)"

section \<open>File extractor\<close>

text \<open>
  A numeric output column: \<^verbatim>\<open>pd.to_numeric(cell, errors='coerce')\<close> is kept as the cell
  it is applied to (the parse itself is the library's), next to the two constants the code
  writes when the column was not resolved.
\<close>

datatype numeric = To_numeric cell | Zero | Absent

record item =
  tdr_folder :: string
  boq_file :: string
  item_description :: string
  k9 :: string
  k7 :: string
  dia :: "nat option"
  estimate_rate :: numeric
  units :: string
  quantity :: numeric

text \<open>
  A record of the result list: an extracted item with its nine keys, or a diagnostic
  holding only the keys TDR Folder, BOQ File and Item Description.
\<close>

datatype out_row = Extracted item | Diagnostic string string string

text \<open>The UTF-8 bytes of the two signs that open the diagnostic messages.\<close>

definition cross_mark :: string where
  "cross_mark = [CHR 0xE2, CHR 0x9D, CHR 0x8C]"

definition warning_sign :: string where
  "warning_sign = [CHR 0xE2, CHR 0x9A, CHR 0xA0, CHR 0xEF, CHR 0xB8, CHR 0x8F]"

text \<open>\<^verbatim>\<open>.map({True: "Yes", False: ""})\<close>\<close>

definition yes_no :: "bool \<Rightarrow> string" where
  "yes_no b = (if b then ''Yes'' else [])"

text \<open>
  Lines 79 to 92 of the source on one kept row \<open>r\<close> of the frame (the frame after the unit
  column was overwritten): the nine output columns.
\<close>

definition make_item ::
  "cell \<Rightarrow> cell \<Rightarrow> cell option \<Rightarrow> cell option \<Rightarrow> string \<Rightarrow> string \<Rightarrow> (cell \<times> cell) list \<Rightarrow> item" where
  "make_item desc_col unit_col qty_col rate_col tdr_name file_name r =
     (let description = py_str (get r desc_col) in
      \<lparr> tdr_folder = tdr_name,
        boq_file = file_name,
        item_description = description,
        k9 = yes_no (sublist ''k-9'' (lower description) \<or> sublist ''k9'' (lower description)),
        k7 = yes_no (sublist ''k-7'' (lower description)),
        dia = extract_dia description,
        estimate_rate =
          (case rate_col of Some c \<Rightarrow> if truthy rate_col then To_numeric (get r c) else Zero
           | None \<Rightarrow> Zero),
        units = strip (py_str (get r unit_col)),
        quantity =
          (case qty_col of Some c \<Rightarrow> if truthy qty_col then To_numeric (get r c) else Absent
           | None \<Rightarrow> Absent) \<rparr>)"

text \<open>
  Lines 67 to 94: the unit column is overwritten with its normalized values, the rows are
  filtered by \<open>is_pipe_row\<close>, and the kept rows become records.
\<close>

definition extract_items ::
  "dataframe \<Rightarrow> cell \<Rightarrow> cell \<Rightarrow> cell option \<Rightarrow> cell option \<Rightarrow> string \<Rightarrow> string \<Rightarrow> out_row list" where
  "extract_items df desc_col unit_col qty_col rate_col tdr_name file_name =
     (let table = map (\<lambda>r. assign unit_col normalize_unit (row_series (columns df) r)) (rows df);
          filtered_df = filter (is_pipe_row desc_col) table
      in if filtered_df = [] then []
         else map (\<lambda>r. Extracted (make_item desc_col unit_col qty_col rate_col tdr_name file_name r))
                filtered_df)"

text \<open>
  The file as the two calls of \<^verbatim>\<open>pd.read_excel\<close> see it: without a header, and with
  row \<open>i\<close> as the header. \<open>Inl e\<close> is an exception with message \<open>e\<close>.
\<close>

record excel_file =
  read_raw :: "string + cell list list"
  read_with_header :: "nat \<Rightarrow> string + dataframe"

definition process_boq_file :: "excel_file \<Rightarrow> string \<Rightarrow> string \<Rightarrow> out_row list" where
  "process_boq_file file tdr_name file_name =
     (case read_raw file of
        Inl e \<Rightarrow>
          [Diagnostic tdr_name file_name (cross_mark @ '' Failed to read file: '' @ e)]
      | Inr df_raw \<Rightarrow>
          (case locate_header df_raw of
             None \<Rightarrow> [Diagnostic tdr_name file_name (warning_sign @ '' Header not found'')]
           | Some header_row_index \<Rightarrow>
               (case read_with_header file header_row_index of
                  Inl e \<Rightarrow>
                    [Diagnostic tdr_name file_name
                       (cross_mark @ '' Error loading structured data: '' @ e)]
                | Inr df \<Rightarrow>
                    (let desc_col = find_column (columns df) [''desc'', ''item''];
                         unit_col = find_column (columns df) [''unit''];
                         qty_col = find_column (columns df) [''qty'', ''quantity''];
                         rate_col = find_column (columns df) [''rate'', ''amount'', ''estimate'']
                     in case (desc_col, unit_col) of
                          (Some d, Some u) \<Rightarrow>
                            if \<not> truthy desc_col \<or> \<not> truthy unit_col
                            then [Diagnostic tdr_name file_name
                                    (warning_sign @ '' Missing required columns'')]
                            else extract_items df d u qty_col rate_col tdr_name file_name
                        | _ \<Rightarrow>
                            [Diagnostic tdr_name file_name
                               (warning_sign @ '' Missing required columns'')]))))"

section \<open>Batch aggregator\<close>

text \<open>A file of the extracted archive: its parent folder's name, its name, its content.\<close>

record member =
  folder :: string
  name :: string
  content :: excel_file

text \<open>
  \<^verbatim>\<open>file.lower().endswith(('.xls', '.xlsx')) and not file.startswith("~$")\<close>
\<close>

definition is_boq_name :: "string \<Rightarrow> bool" where
  "is_boq_name file =
     ((suffix ''.xls'' (lower file) \<or> suffix ''.xlsx'' (lower file)) \<and> \<not> prefix ''~$'' file)"

definition combine :: "member list \<Rightarrow> out_row list" where
  "combine files =
     concat (map (\<lambda>m. process_boq_file (content m) (folder m) (name m))
               (filter (\<lambda>m. is_boq_name (name m)) files))"

text \<open>
  The column DIA of the summary frame after \<^verbatim>\<open>pd.to_numeric(..., errors="coerce")\<close>:
  a record without the key, or with \<^verbatim>\<open>None\<close> under it, has NaN there.
\<close>

fun dia_column :: "out_row \<Rightarrow> nat option" where
  "dia_column (Extracted it) = dia it"
| "dia_column (Diagnostic t f m) = None"

fun has_dia_key :: "out_row \<Rightarrow> bool" where
  "has_dia_key (Extracted it) = True"
| "has_dia_key (Diagnostic t f m) = False"

text \<open>\<^verbatim>\<open>df_summary["DIA"] >= 80\<close>; the comparison with NaN is false.\<close>

definition dia_ge_80 :: "out_row \<Rightarrow> bool" where
  "dia_ge_80 r = (case dia_column r of Some d \<Rightarrow> 80 \<le> d | None \<Rightarrow> False)"

text \<open>
  \<^verbatim>\<open>ILLEGAL_CHARACTERS_RE.sub("", value)\<close>: the control characters 0 to 8, 11, 12 and 14
  to 31 are removed.
\<close>

definition illegal_char :: "char \<Rightarrow> bool" where
  "illegal_char c = (let n = (of_char c :: nat) in n \<le> 8 \<or> n = 11 \<or> n = 12 \<or> (14 \<le> n \<and> n \<le> 31))"

definition clean_illegal_chars :: "string \<Rightarrow> string" where
  "clean_illegal_chars v = filter (\<lambda>c. \<not> illegal_char c) v"

text \<open>
  The text columns of a final row after \<^verbatim>\<open>.astype(str).map(clean_illegal_chars)\<close>. The
  numeric columns keep their values: their rendering as text is floating-point printing.
\<close>

fun clean_row :: "out_row \<Rightarrow> out_row" where
  "clean_row (Extracted it) =
     Extracted (it\<lparr> tdr_folder := clean_illegal_chars (tdr_folder it),
                    boq_file := clean_illegal_chars (boq_file it),
                    item_description := clean_illegal_chars (item_description it),
                    k9 := clean_illegal_chars (k9 it),
                    k7 := clean_illegal_chars (k7 it),
                    units := clean_illegal_chars (units it) \<rparr>)"
| "clean_row (Diagnostic t f m) =
     Diagnostic (clean_illegal_chars t) (clean_illegal_chars f) (clean_illegal_chars m)"

text \<open>
  What the page shows: the warning, or the summary table (serial number and row) with its
  download, or the uncaught \<^verbatim>\<open>KeyError\<close> of \<^verbatim>\<open>df_summary["DIA"]\<close> on a frame that has
  no such column because no record carried the key.
\<close>

datatype outcome =
    No_matching_rows
  | Summary "(nat \<times> out_row) list"
  | Raised_KeyError string

definition main_logic :: "out_row list \<Rightarrow> outcome" where
  "main_logic combined_rows =
     (if combined_rows = [] then No_matching_rows
      else if \<not> list_ex has_dia_key combined_rows then Raised_KeyError ''DIA''
      else
        (let df_summary = filter dia_ge_80 combined_rows
         in Summary (zip [1..<length df_summary + 1] (map clean_row df_summary))))"

definition main :: "member list \<Rightarrow> outcome" where
  "main files = main_logic (combine files)"


section \<open>Sample workbooks\<close>


definition boq_b :: excel_file where
  "boq_b =
     \<lparr> read_raw = Inr [[Str ''Item Description'', Str ''Unit''],
                      [Str ''RCC Pipe 60mm'', Str ''Nos'']],
       read_with_header = (\<lambda>i. Inr \<lparr> columns = [Str ''Item Description'', Str ''Unit''],
                                     rows = [[Str ''RCC Pipe 60mm'', Str ''Nos'']] \<rparr>) \<rparr>"

text \<open>A workbook that cannot be read.\<close>

definition boq_corrupt :: excel_file where
  "boq_corrupt = \<lparr> read_raw = Inl ''File is not a zip file'',
                   read_with_header = (\<lambda>i. Inl ''File is not a zip file'') \<rparr>"

text \<open>
  A workbook with two banner rows above the header, columns for all four roles, and rows
  that show every combination of the two class flags.
\<close>

definition boq_classes_frame :: dataframe where
  "boq_classes_frame =
     \<lparr> columns = [Str ''Sl'', Str ''Description of Item'', Str ''Qty'', Str ''Unit'',
                  Str ''Rate (Rs)''],
       rows = [[Num 1, Str ''HDPE Pipe 110mm'', Num 40, Str ''Rmt'', Num 950],
               [Num 2, Str ''Cement Concrete Work'', Num 12, Str ''Cum'', Num 4800],
               [Num 3, Str ''DI K-7 150 MM'', Num 300, Str ''MTR'', Num 2100],
               [Num 4, Str ''DI K9 80mm'', Num 25, Str ''rmt/km'', NaN],
               [Num 5, Str ''K-7/K-9 DI Pipe'', NaN, Str '' Each '', Str ''n/a'']] \<rparr>"


text \<open>A workbook whose header row names no quantity and no rate column.\<close>

definition boq_bare :: excel_file where
  "boq_bare =
     \<lparr> read_raw = Inr [[Str ''ITEM'', Str ''UNITS'']],
       read_with_header = (\<lambda>i. Inr \<lparr> columns = [Str ''ITEM'', Str ''UNITS''],
                                     rows = [[Str ''CI pipe 90 mm'', Str ''Nos'']] \<rparr>) \<rparr>"

text \<open>A sheet of thirty banner rows with the header in row 30, beyond the scan window.\<close>

definition late_header :: "cell list list" where
  "late_header = replicate 30 [Str ''Banner''] @ [[Str ''Item'', Str ''Unit'']]"

text \<open>An extracted record with a given diameter.\<close>

definition pipe_item :: "nat option \<Rightarrow> item" where
  "pipe_item d =
     \<lparr> tdr_folder = ''TDR-A'', boq_file = ''a.xlsx'', item_description = ''DI Pipe'',
       k9 = [], k7 = [], dia = d, estimate_rate = Zero, units = ''meter'',
       quantity = Absent \<rparr>"

section \<open>Properties of the text primitives\<close>

lemma lower_char_cases:
  "lower_char c = c \<or> (c \<in> set uppercase \<and> lower_char c \<in> set lowercase)"
  by (auto simp: lower_char_def split: option.splits dest!: map_of_SomeD
      dest: set_zip_leftD set_zip_rightD)

lemma upper_lower_disjoint: "c \<in> set lowercase \<Longrightarrow> c \<notin> set uppercase"
  by (auto simp: uppercase_def lowercase_def)

lemma lower_char_not_upper: "c \<notin> set uppercase \<Longrightarrow> lower_char c = c"
proof -
  assume c: "c \<notin> set uppercase"
  have "length uppercase = length lowercase" by (simp add: uppercase_def lowercase_def)
  then have "map fst (zip uppercase lowercase) = uppercase" by (rule map_fst_zip)
  then have "fst ` set (zip uppercase lowercase) = set uppercase" by (metis set_map)
  with c have "map_of (zip uppercase lowercase) c = None"
    by (simp only: map_of_eq_None_iff not_False_eq_True)
  then show ?thesis by (simp add: lower_char_def)
qed

lemma lowercase_fixed: "c \<in> set lowercase \<Longrightarrow> lower_char c = c"
  by (rule lower_char_not_upper) (rule upper_lower_disjoint)

lemma lower_char_idem [simp]: "lower_char (lower_char c) = lower_char c"
proof (cases "lower_char c = c")
  case True
  then show ?thesis by simp
next
  case False
  with lower_char_cases [of c] have "lower_char c \<in> set lowercase" by blast
  then show ?thesis by (rule lowercase_fixed)
qed

lemma lower_idem [simp]: "lower (lower s) = lower s"
  by (simp add: lower_def)

lemma upper_not_space: "c \<in> set uppercase \<Longrightarrow> \<not> is_space c"
  by (auto simp: uppercase_def is_space_def)

lemma lower_not_space: "c \<in> set lowercase \<Longrightarrow> \<not> is_space c"
  by (auto simp: lowercase_def is_space_def)

lemma is_space_lower_char [simp]: "is_space (lower_char c) = is_space c"
proof (cases "lower_char c = c")
  case True
  then show ?thesis by simp
next
  case False
  with lower_char_cases [of c] have "c \<in> set uppercase" "lower_char c \<in> set lowercase"
    by blast+
  then show ?thesis using upper_not_space lower_not_space by blast
qed

lemma lower_append [simp]: "lower (a @ b) = lower a @ lower b"
  by (simp add: lower_def)

lemma lower_dropWhile_space: "dropWhile is_space (lower s) = lower (dropWhile is_space s)"
  by (simp add: lower_def dropWhile_map comp_def)

lemma lower_rev: "rev (lower s) = lower (rev s)"
  by (simp add: lower_def rev_map)

lemma strip_lower: "strip (lower s) = lower (strip s)"
  by (simp add: strip_def lower_dropWhile_space lower_rev)

lemma dropWhile_fixed: "xs = [] \<or> \<not> P (hd xs) \<Longrightarrow> dropWhile P xs = xs"
  by (cases xs) auto

lemma last_dropWhile_keep: "dropWhile P xs \<noteq> [] \<Longrightarrow> last (dropWhile P xs) = last xs"
  by (induction xs) (auto split: if_splits)

lemma strip_idem [simp]: "strip (strip s) = strip s"
proof -
  let ?a = "dropWhile is_space s"
  let ?b = "dropWhile is_space (rev ?a)"
  have 1: "dropWhile is_space (rev ?b) = rev ?b"
  proof (cases "?b = []")
    case True
    show ?thesis by (simp only: True rev.simps dropWhile.simps)
  next
    case False
    then have "last ?b = last (rev ?a)" by (rule last_dropWhile_keep)
    moreover have a: "?a \<noteq> []"
    proof
      assume e: "?a = []"
      have "?b = []" by (simp only: e rev.simps dropWhile.simps)
      with False show False ..
    qed
    ultimately have "last ?b = hd ?a" by (simp add: last_rev)
    moreover from a have "\<not> is_space (hd ?a)" by (rule hd_dropWhile)
    ultimately have "\<not> is_space (hd (rev ?b))" using False by (simp add: hd_rev)
    then show ?thesis by (intro dropWhile_fixed) simp
  qed
  have "strip (strip s) = rev (dropWhile is_space (rev (dropWhile is_space (rev ?b))))"
    by (simp only: strip_def)
  also have "\<dots> = rev (dropWhile is_space ?b)" by (simp only: 1 rev_rev_ident)
  also have "\<dots> = rev ?b" by simp
  finally show ?thesis by (simp only: strip_def)
qed

lemma strip_decompose:
  "\<exists>a c. list_all is_space a \<and> list_all is_space c \<and> s = a @ strip s @ c"
proof -
  let ?a = "dropWhile is_space s"
  let ?t = "takeWhile is_space (rev ?a)"
  have 1: "s = takeWhile is_space s @ ?a" by simp
  have "rev ?a = ?t @ dropWhile is_space (rev ?a)" by simp
  then have "rev (rev ?a) = rev (?t @ dropWhile is_space (rev ?a))" by (rule arg_cong)
  then have 2: "?a = strip s @ rev ?t"
    by (simp only: rev_append rev_rev_ident strip_def)
  have 3: "list_all is_space (takeWhile is_space s)"
    by (auto simp: list_all_iff dest: set_takeWhileD)
  have 4: "list_all is_space (rev ?t)"
    by (auto simp: list_all_iff dest: set_takeWhileD)
  have "takeWhile is_space s @ ?a = takeWhile is_space s @ strip s @ rev ?t"
    using 2 by (rule arg_cong)
  with 1 have "s = takeWhile is_space s @ strip s @ rev ?t" by (rule trans)
  with 3 4 show ?thesis by blast
qed

lemma sublist_drop_space_left:
  "k \<noteq> [] \<Longrightarrow> \<not> is_space (hd k) \<Longrightarrow> list_all is_space a \<Longrightarrow>
     sublist k (a @ b) \<longleftrightarrow> sublist k b"
proof (induction a)
  case Nil
  then show ?case by simp
next
  case (Cons x a)
  from Cons.prems have "\<not> prefix k (x # a @ b)"
    by (cases k) auto
  with Cons show ?case by (simp add: sublist_Cons_right)
qed

lemma sublist_drop_space_right:
  assumes "k \<noteq> []" "\<not> is_space (last k)" "list_all is_space c"
  shows "sublist k (b @ c) \<longleftrightarrow> sublist k b"
proof -
  have "sublist k (b @ c) \<longleftrightarrow> sublist (rev k) (rev (b @ c))" by (simp only: sublist_rev)
  also have "\<dots> \<longleftrightarrow> sublist (rev k) (rev c @ rev b)" by simp
  also have "\<dots> \<longleftrightarrow> sublist (rev k) (rev b)"
    using assms by (intro sublist_drop_space_left) (simp_all add: hd_rev)
  finally show ?thesis by simp
qed

lemma sublist_strip:
  assumes "k \<noteq> []" "\<not> is_space (hd k)" "\<not> is_space (last k)"
  shows "sublist k (strip s) \<longleftrightarrow> sublist k s"
proof -
  obtain a c where ac: "list_all is_space a" "list_all is_space c" "s = a @ strip s @ c"
    using strip_decompose by blast
  have "sublist k (a @ strip s @ c) \<longleftrightarrow> sublist k (strip s @ c)"
    using assms ac by (intro sublist_drop_space_left)
  also have "\<dots> \<longleftrightarrow> sublist k (strip s)"
    using assms ac by (intro sublist_drop_space_right)
  finally have "sublist k (a @ strip s @ c) \<longleftrightarrow> sublist k (strip s)" .
  moreover have "sublist k s \<longleftrightarrow> sublist k (a @ strip s @ c)"
    using ac(3) by (rule arg_cong)
  ultimately show ?thesis by blast
qed

section \<open>Frames, column resolution and header scan\<close>


lemma map_of_assign:
  "map_of (assign col f r) c = (if c = col then map_option f (map_of r c) else map_of r c)"
  by (induction r) (auto simp: assign_def)

lemma get_assign:
  "get (assign col f r) c = (if c = col \<and> col \<in> fst ` set r then f (get r c) else get r c)"
proof (cases "map_of r c")
  case None
  then have "c \<notin> fst ` set r" by (simp add: map_of_eq_None_iff)
  with None show ?thesis by (auto simp: get_def map_of_assign)
next
  case (Some v)
  then have "c \<in> fst ` set r" by (metis map_of_eq_None_iff option.distinct(1))
  with Some show ?thesis by (auto simp: get_def map_of_assign)
qed

lemma find_column_find:
  "find_column cols kws = find (\<lambda>col. list_ex (\<lambda>k. sublist k (lower (py_str col))) kws) cols"
  by (induction cols) auto

lemma find_column_Some:
  "find_column cols kws = Some c \<Longrightarrow>
     c \<in> set cols \<and> (\<exists>k\<in>set kws. sublist k (lower (py_str c)))"
  by (induction cols) (auto simp: list_ex_iff split: if_splits)

lemma digits_of_nat_0: "digits_of_nat 0 = ''0''"
  by code_simp

lemma lower_Nil [simp]: "lower [] = []"
  by (simp add: lower_def)

lemma lower_zero: "lower ''0'' = ''0''"
  by (simp add: lower_def lower_char_def uppercase_def lowercase_def)

lemma find_column_truthy:
  assumes "find_column cols kws = Some c" "[] \<notin> set kws" "''0'' \<notin> set kws"
  shows "truthy (Some c)"
proof -
  from assms(1) obtain k where k: "k \<in> set kws" "sublist k (lower (py_str c))"
    using find_column_Some by blast
  with assms have ne: "k \<noteq> []" "k \<noteq> ''0''" by auto
  show ?thesis
  proof (cases c)
    case (Str s)
    with k ne show ?thesis by (cases s) auto
  next
    case (Num n)
    show ?thesis
    proof (cases "n = 0")
      case True
      with Num k have "sublist k ''0''" by (simp add: digits_of_nat_0 lower_zero)
      with ne have False by (cases k) (auto simp: sublist_Cons_right)
      then show ?thesis ..
    next
      case False
      with Num show ?thesis by simp
    qed
  next
    case NaN
    then show ?thesis by simp
  qed
qed

lemma scan_header_find:
  "scan_header df_raw is = find (\<lambda>i. is_header_row (df_raw ! i)) is"
  by (induction "is") auto

lemma locate_header_Some_iff:
  "locate_header df_raw = Some i \<longleftrightarrow>
     i < min 30 (length df_raw) \<and> is_header_row (df_raw ! i) \<and>
     (\<forall>j<i. \<not> is_header_row (df_raw ! j))"
proof -
  let ?n = "min 30 (length df_raw)"
  have "locate_header df_raw = Some i \<longleftrightarrow>
        (\<exists>k<length [0..<?n]. is_header_row (df_raw ! ([0..<?n] ! k)) \<and> i = [0..<?n] ! k \<and>
           (\<forall>j<k. \<not> is_header_row (df_raw ! ([0..<?n] ! j))))"
    unfolding locate_header_def scan_header_find by (rule find_Some_iff)
  also have "\<dots> \<longleftrightarrow> (\<exists>k<?n. is_header_row (df_raw ! k) \<and> i = k \<and>
           (\<forall>j<k. \<not> is_header_row (df_raw ! j)))"
    by (rule ex_cong1) auto
  also have "\<dots> \<longleftrightarrow> i < ?n \<and> is_header_row (df_raw ! i) \<and>
     (\<forall>j<i. \<not> is_header_row (df_raw ! j))" by blast
  finally show ?thesis .
qed

lemma locate_header_None_iff:
  "locate_header df_raw = None \<longleftrightarrow>
     (\<forall>i<min 30 (length df_raw). \<not> is_header_row (df_raw ! i))"
  unfolding locate_header_def scan_header_find find_None_iff by auto

lemma is_header_row_iff:
  "is_header_row cells \<longleftrightarrow>
     (\<exists>v\<in>set cells. sublist ''desc'' (lower (py_str v)) \<or> sublist ''item'' (lower (py_str v))) \<and>
     (\<exists>v\<in>set cells. sublist ''unit'' (lower (py_str v)))"
  by (auto simp: is_header_row_def list_ex_iff)

section \<open>Structure of the file extractor\<close>

lemma pipe_keyword_solid:
  "k \<in> set pipe_keywords \<Longrightarrow> k \<noteq> [] \<and> \<not> is_space (hd k) \<and> \<not> is_space (last k)"
  by (auto simp: pipe_keywords_def is_space_def)

lemma pipe_keyword_strip:
  "k \<in> set pipe_keywords \<Longrightarrow> sublist k (strip s) \<longleftrightarrow> sublist k s"
  using pipe_keyword_solid [of k] by (intro sublist_strip) simp_all

lemma synonym_lookup:
  "map_of unit_synonyms t = Some w \<Longrightarrow>
     w = ''meter'' \<and> t \<in> {''per metre'', ''rm'', ''rmt'', ''mtr'', ''mtrs''}"
  by (auto simp: unit_synonyms_def split: if_splits)


lemma lower_meter: "lower ''meter'' = ''meter''"
  by (simp add: lower_def lower_char_def uppercase_def lowercase_def)

lemma meter_not_pipe: "k \<in> set pipe_keywords \<Longrightarrow> \<not> sublist k ''meter''"
  by (auto simp: pipe_keywords_def sublist_code)

lemma synonym_not_pipe:
  "k \<in> set pipe_keywords \<Longrightarrow> t \<in> {''per metre'', ''rm'', ''rmt'', ''mtr'', ''mtrs''} \<Longrightarrow>
     \<not> sublist k t"
  by (auto simp: pipe_keywords_def sublist_code)

lemma py_str_normalize_unit:
  "py_str (normalize_unit v) = replace unit_synonyms (lower (strip (py_str v)))"
  by (simp add: normalize_unit_def)

lemma pipe_keyword_normalize_unit:
  assumes "k \<in> set pipe_keywords"
  shows "sublist k (lower (py_str (normalize_unit v))) \<longleftrightarrow> sublist k (lower (py_str v))"
proof -
  let ?t = "lower (strip (py_str v))"
  have t: "sublist k ?t \<longleftrightarrow> sublist k (lower (py_str v))"
    using pipe_keyword_strip [OF assms, of "lower (py_str v)"] by (simp add: strip_lower)
  show ?thesis
  proof (cases "map_of unit_synonyms ?t")
    case None
    then show ?thesis using t by (simp add: py_str_normalize_unit replace_def)
  next
    case (Some w)
    from synonym_lookup [OF Some] have w: "w = ''meter''"
      and k: "?t \<in> {''per metre'', ''rm'', ''rmt'', ''mtr'', ''mtrs''}" by blast+
    from synonym_not_pipe [OF assms k] t have "\<not> sublist k (lower (py_str v))" by blast
    moreover from Some w have "lower (py_str (normalize_unit v)) = ''meter''"
      by (simp add: py_str_normalize_unit replace_def lower_meter)
    ultimately show ?thesis using meter_not_pipe [OF assms] by simp
  qed
qed





lemma get_normalized_other:
  "c \<noteq> u \<Longrightarrow> get (assign u normalize_unit rs) c = get rs c"
  by (simp add: get_assign)

lemma is_pipe_row_iff:
  "is_pipe_row d rs \<longleftrightarrow> (\<exists>k\<in>set pipe_keywords. sublist k (lower (py_str (get rs d))))"
  by (simp add: is_pipe_row_def list_ex_iff)

lemma is_pipe_row_assign:
  "is_pipe_row d (assign u normalize_unit rs) \<longleftrightarrow> is_pipe_row d rs"
proof (cases "d = u \<and> u \<in> fst ` set rs")
  case True
  then have "get (assign u normalize_unit rs) d = normalize_unit (get rs d)"
    by (simp add: get_assign)
  then show ?thesis
    unfolding is_pipe_row_iff using pipe_keyword_normalize_unit by simp
next
  case False
  then have "get (assign u normalize_unit rs) d = get rs d"
    by (auto simp: get_assign)
  then show ?thesis by (simp add: is_pipe_row_iff)
qed

lemma extract_items_map:
  "extract_items df d u q rt tdr file_name =
     map (\<lambda>r. Extracted (make_item d u q rt tdr file_name
                  (assign u normalize_unit (row_series (columns df) r))))
       (filter (\<lambda>r. is_pipe_row d (row_series (columns df) r)) (rows df))"
proof -
  have "filter (is_pipe_row d) (map (\<lambda>r. assign u normalize_unit (row_series (columns df) r)) (rows df))
      = map (\<lambda>r. assign u normalize_unit (row_series (columns df) r))
          (filter (\<lambda>r. is_pipe_row d (row_series (columns df) r)) (rows df))"
    by (simp add: filter_map comp_def is_pipe_row_assign)
  then show ?thesis by (simp add: extract_items_def Let_def comp_def)
qed

lemma process_boq_file_success:
  assumes "read_raw file = Inr df_raw"
    and "locate_header df_raw = Some i"
    and "read_with_header file i = Inr df"
    and "find_column (columns df) [''desc'', ''item''] = Some d"
    and "find_column (columns df) [''unit''] = Some u"
  shows "process_boq_file file tdr file_name =
     extract_items df d u (find_column (columns df) [''qty'', ''quantity''])
       (find_column (columns df) [''rate'', ''amount'', ''estimate'']) tdr file_name"
proof -
  have "truthy (Some d)" using assms(4) by (rule find_column_truthy) simp_all
  moreover have "truthy (Some u)" using assms(5) by (rule find_column_truthy) simp_all
  ultimately show ?thesis using assms by (simp add: process_boq_file_def)
qed

lemma process_boq_file_missing:
  assumes "read_raw file = Inr df_raw"
    and "locate_header df_raw = Some i"
    and "read_with_header file i = Inr df"
    and "find_column (columns df) [''desc'', ''item''] = None \<or>
         find_column (columns df) [''unit''] = None"
  shows "process_boq_file file tdr file_name =
     [Diagnostic tdr file_name (warning_sign @ '' Missing required columns'')]"
  using assms by (auto simp: process_boq_file_def Let_def split: option.splits)

section \<open>The diameter parser against its specification\<close>













section \<open>Units column and unit normalizer\<close>






section \<open>Batch aggregator: the message and the final filter\<close>

lemma dia_ge_80_iff:
  "dia_ge_80 r \<longleftrightarrow> (\<exists>it d. r = Extracted it \<and> dia it = Some d \<and> 80 \<le> d)"
  by (cases r) (auto simp: dia_ge_80_def split: option.splits)

lemma has_dia_key_iff: "list_ex has_dia_key rs \<longleftrightarrow> (\<exists>it. Extracted it \<in> set rs)"
proof -
  have "has_dia_key r \<longleftrightarrow> (\<exists>it. r = Extracted it)" for r by (cases r) auto
  then show ?thesis by (auto simp: list_ex_iff)
qed

lemma main_logic_table:
  "list_ex has_dia_key rs \<Longrightarrow>
     main_logic rs =
       Summary (zip [1..<length (filter dia_ge_80 rs) + 1] (map clean_row (filter dia_ge_80 rs)))"
  by (auto simp: main_logic_def Let_def)

text \<open>
  Claim C2, as stated, fails: the batch holding only the workbook of folder TDR-B has one
  record before the filter (DIA 60) and none after it, and the page shows an empty
  summary table, not the message. (A batch whose only record is a diagnostic ends in the
  uncaught \<^verbatim>\<open>KeyError\<close>.)
\<close>

theorem no_rows_message_counterexample:
  "main [\<lparr> folder = ''TDR-B'', name = ''b.xlsx'', content = boq_b \<rparr>] = Summary [] \<and>
   main [\<lparr> folder = ''TDR-B'', name = ''b.xlsx'', content = boq_b \<rparr>] \<noteq> No_matching_rows \<and>
   filter dia_ge_80 (combine [\<lparr> folder = ''TDR-B'', name = ''b.xlsx'', content = boq_b \<rparr>]) = [] \<and>
   main [\<lparr> folder = ''TDR-X'', name = ''x.xlsx'', content = boq_corrupt \<rparr>] = Raised_KeyError ''DIA''"
  by code_simp

text \<open>
  Claim C2, amended. The message is tied to the records before the filter: a batch that
  yields no record at all gets the message; a batch that yields at least one extracted
  item, none of which passes the filter, gets an empty summary table.
\<close>

theorem no_rows_message:
  "(combine files = [] \<longrightarrow> main files = No_matching_rows) \<and>
   ((\<exists>it. Extracted it \<in> set (combine files)) \<and> filter dia_ge_80 (combine files) = [] \<longrightarrow>
      main files = Summary [])"
proof (intro conjI impI)
  assume "combine files = []"
  then show "main files = No_matching_rows" by (simp add: main_def main_logic_def)
next
  assume a: "(\<exists>it. Extracted it \<in> set (combine files)) \<and> filter dia_ge_80 (combine files) = []"
  then have "list_ex has_dia_key (combine files)" by (simp add: has_dia_key_iff)
  from main_logic_table [OF this] a show "main files = Summary []" by (simp add: main_def)
qed

theorem no_rows_message_witness:
  "combine [] = [] \<and> main [] = No_matching_rows \<and>
   combine [\<lparr> folder = ''TDR-B'', name = ''b.xlsx'', content = boq_b \<rparr>] =
     [Extracted \<lparr> tdr_folder = ''TDR-B'', boq_file = ''b.xlsx'',
         item_description = ''RCC Pipe 60mm'', k9 = [], k7 = [], dia = Some 60,
         estimate_rate = Zero, units = ''nos'', quantity = Absent \<rparr>] \<and>
   main [\<lparr> folder = ''TDR-B'', name = ''b.xlsx'', content = boq_b \<rparr>] = Summary []"
proof -
  let ?b = "[\<lparr> folder = ''TDR-B'', name = ''b.xlsx'', content = boq_b \<rparr>]"
  let ?it = "\<lparr> tdr_folder = ''TDR-B'', boq_file = ''b.xlsx'',
         item_description = ''RCC Pipe 60mm'', k9 = [], k7 = [], dia = Some 60,
         estimate_rate = Zero, units = ''nos'', quantity = Absent \<rparr>"
  have e: "combine [] = []" by (simp add: combine_def)
  have c: "combine ?b = [Extracted ?it]" by code_simp
  then have x: "\<exists>it. Extracted it \<in> set (combine ?b)" by simp
  have f: "filter dia_ge_80 (combine ?b) = []" unfolding c by code_simp
  from no_rows_message [of "[]"] e have "main [] = No_matching_rows" by blast
  moreover from no_rows_message [of ?b] x f have "main ?b = Summary []" by blast
  ultimately show ?thesis using e c by simp
qed

text \<open>
  Claim C4. Whenever a summary table is shown, its rows are exactly the records whose DIA
  is a number of at least 80, in their order, numbered from 1; a record with an absent
  DIA and a diagnostic (which has no DIA) are not among them. A table is shown whenever
  the batch holds an extracted item.
\<close>

theorem final_filter:
  "(\<forall>tbl. main_logic combined_rows = Summary tbl \<longrightarrow>
      map snd tbl =
        map clean_row
          (filter (\<lambda>r. \<exists>it d. r = Extracted it \<and> dia it = Some d \<and> 80 \<le> d) combined_rows) \<and>
      map fst tbl = [1..<length tbl + 1]) \<and>
   ((\<exists>it. Extracted it \<in> set combined_rows) \<longrightarrow> (\<exists>tbl. main_logic combined_rows = Summary tbl))"
proof (intro conjI allI impI)
  fix tbl
  assume s: "main_logic combined_rows = Summary tbl"
  let ?kept = "filter dia_ge_80 combined_rows"
  from s have "list_ex has_dia_key combined_rows"
    by (auto simp: main_logic_def split: if_splits)
  from main_logic_table [OF this] s
  have "Summary tbl = Summary (zip [1..<length ?kept + 1] (map clean_row ?kept))"
    by (simp only:)
  then have tbl: "tbl = zip [1..<length ?kept + 1] (map clean_row ?kept)"
    by (simp only: outcome.inject)
  have k: "?kept = filter (\<lambda>r. \<exists>it d. r = Extracted it \<and> dia it = Some d \<and> 80 \<le> d) combined_rows"
    by (rule filter_cong) (simp_all add: dia_ge_80_iff)
  have l: "length [1..<length ?kept + 1] = length (map clean_row ?kept)"
    by (simp only: length_upt length_map add_diff_cancel_right')
  have len: "length tbl = length ?kept"
    unfolding tbl by (simp only: length_zip l min.idem length_map)
  have "map snd tbl = map clean_row ?kept"
    unfolding tbl using l by (rule map_snd_zip)
  with k show "map snd tbl =
        map clean_row
          (filter (\<lambda>r. \<exists>it d. r = Extracted it \<and> dia it = Some d \<and> 80 \<le> d) combined_rows)"
    by simp
  have "map fst tbl = [1..<length ?kept + 1]"
    unfolding tbl using l by (rule map_fst_zip)
  with len show "map fst tbl = [1..<length tbl + 1]" by (simp only:)
next
  assume "\<exists>it. Extracted it \<in> set combined_rows"
  then have "list_ex has_dia_key combined_rows" by (simp add: has_dia_key_iff)
  from main_logic_table [OF this] show "\<exists>tbl. main_logic combined_rows = Summary tbl" by blast
qed

theorem final_filter_witness:
  "main_logic [Extracted (pipe_item (Some 79)), Diagnostic ''TDR-X'' ''x.xlsx'' ''unreadable'',
               Extracted (pipe_item (Some 80)), Extracted (pipe_item None),
               Extracted (pipe_item (Some 150))] =
     Summary [(1::nat, Extracted (pipe_item (Some 80))), (2, Extracted (pipe_item (Some 150)))] \<and>
   map clean_row
     (filter (\<lambda>r. \<exists>it d. r = Extracted it \<and> dia it = Some d \<and> 80 \<le> d)
        [Extracted (pipe_item (Some 79)), Diagnostic ''TDR-X'' ''x.xlsx'' ''unreadable'',
         Extracted (pipe_item (Some 80)), Extracted (pipe_item None),
         Extracted (pipe_item (Some 150))]) =
     [Extracted (pipe_item (Some 80)), Extracted (pipe_item (Some 150))]"
proof -
  let ?rows = "[Extracted (pipe_item (Some 79)), Diagnostic ''TDR-X'' ''x.xlsx'' ''unreadable'',
               Extracted (pipe_item (Some 80)), Extracted (pipe_item None),
               Extracted (pipe_item (Some 150))]"
  let ?tbl = "[(1::nat, Extracted (pipe_item (Some 80))), (2, Extracted (pipe_item (Some 150)))]"
  have m: "main_logic ?rows = Summary ?tbl" by code_simp
  from final_filter [of ?rows] m
  have "map snd ?tbl =
        map clean_row
          (filter (\<lambda>r. \<exists>it d. r = Extracted it \<and> dia it = Some d \<and> 80 \<le> d) ?rows)"
    by blast
  with m show ?thesis by simp
qed

section \<open>Header locator, row classifier and class flags\<close>

lemma process_boq_file_no_header:
  "read_raw file = Inr df_raw \<Longrightarrow> locate_header df_raw = None \<Longrightarrow>
     process_boq_file file tdr file_name =
       [Diagnostic tdr file_name (warning_sign @ '' Header not found'')]"
  by (simp add: process_boq_file_def)

text \<open>
  Claim C5. The header locator returns the index of the first row, among the first
  \<open>min 30 (length df_raw)\<close> rows, in which some cell's lowercased text contains ``desc''
  or ``item'' and some cell's contains ``unit''; it returns nothing exactly when the
  window holds no such row, and the file then yields the one diagnostic
  ``Header not found''.
\<close>

theorem header_locator:
  "(locate_header df_raw = Some i \<longleftrightarrow>
      i < min 30 (length df_raw) \<and> is_header_row (df_raw ! i) \<and>
      (\<forall>j<i. \<not> is_header_row (df_raw ! j))) \<and>
   (locate_header df_raw = None \<longleftrightarrow>
      (\<forall>j<min 30 (length df_raw). \<not> is_header_row (df_raw ! j))) \<and>
   (is_header_row cells \<longleftrightarrow>
      (\<exists>v\<in>set cells. sublist ''desc'' (lower (py_str v)) \<or> sublist ''item'' (lower (py_str v))) \<and>
      (\<exists>v\<in>set cells. sublist ''unit'' (lower (py_str v)))) \<and>
   (read_raw file = Inr df_raw \<and> locate_header df_raw = None \<longrightarrow>
      process_boq_file file tdr file_name =
        [Diagnostic tdr file_name (warning_sign @ '' Header not found'')])"
  using locate_header_Some_iff [of df_raw i] locate_header_None_iff [of df_raw]
    is_header_row_iff [of cells] process_boq_file_no_header
  by blast

theorem header_locator_witness:
  "locate_header [[Str ''Bill of Quantities''], [NaN, NaN],
      [Str ''Sl'', Str ''Description of Item'', Str ''Qty'', Str ''Unit'', Str ''Rate (Rs)'']] = Some 2 \<and>
   \<not> is_header_row [Str ''Bill of Quantities''] \<and>
   length late_header = 31 \<and> is_header_row (late_header ! 30) \<and>
   locate_header late_header = None \<and>
   process_boq_file \<lparr> read_raw = Inr late_header, read_with_header = (\<lambda>i. Inl ''unused'') \<rparr>
       ''TDR-A'' ''late.xlsx'' =
     [Diagnostic ''TDR-A'' ''late.xlsx'' (warning_sign @ '' Header not found'')]"
proof -
  let ?sheet = "[[Str ''Bill of Quantities''], [NaN, NaN],
      [Str ''Sl'', Str ''Description of Item'', Str ''Qty'', Str ''Unit'', Str ''Rate (Rs)'']]"
  let ?file = "\<lparr> read_raw = Inr late_header, read_with_header = (\<lambda>i. Inl ''unused'') \<rparr>"
  have a: "locate_header ?sheet = Some 2" by code_simp
  have b: "locate_header late_header = None" by code_simp
  have c: "length late_header = 31" by code_simp
  have d: "is_header_row (late_header ! 30)" by code_simp
  have r: "read_raw ?file = Inr late_header" by simp
  from header_locator [of ?sheet 2] a have h: "\<forall>j<2::nat. \<not> is_header_row (?sheet ! j)" by blast
  have "(0::nat) < 2" by simp
  with h have "\<not> is_header_row (?sheet ! 0)" by blast
  then have e: "\<not> is_header_row [Str ''Bill of Quantities'']" by simp
  from header_locator [of late_header _ _ ?file "''TDR-A''" "''late.xlsx''"] b r
  have "process_boq_file ?file ''TDR-A'' ''late.xlsx'' =
     [Diagnostic ''TDR-A'' ''late.xlsx'' (warning_sign @ '' Header not found'')]" by blast
  with a b c d e show ?thesis by blast
qed










section \<open>Column resolver and file-scoped failures\<close>

lemma find_column_Some_iff:
  "find_column cols kws = Some c \<longleftrightarrow>
     (\<exists>n<length cols. cols ! n = c \<and> (\<exists>k\<in>set kws. sublist k (lower (py_str c))) \<and>
        (\<forall>j<n. \<not> (\<exists>k\<in>set kws. sublist k (lower (py_str (cols ! j))))))"
  unfolding find_column_find find_Some_iff list_ex_iff by auto

lemma find_column_None_iff:
  "find_column cols kws = None \<longleftrightarrow>
     (\<forall>c\<in>set cols. \<not> (\<exists>k\<in>set kws. sublist k (lower (py_str c))))"
  unfolding find_column_find find_None_iff list_ex_iff by auto

lemma make_item_defaults:
  "quantity (make_item d u None rt tdr file_name r) = Absent"
  "estimate_rate (make_item d u q None tdr file_name r) = Zero"
  by (simp_all add: make_item_def Let_def)

lemma extract_items_Extracted:
  "r \<in> set (extract_items df d u q rt tdr file_name) \<Longrightarrow>
     \<exists>row. r = Extracted (make_item d u q rt tdr file_name row)"
  by (auto simp: extract_items_map)

text \<open>
  Claim C8. \<open>find_column\<close> returns the first label in sheet order whose lowercased text
  contains one of the role's keywords, and nothing when no label does. When the
  description or the unit column is not resolved, the file yields the one diagnostic
  ``Missing required columns''; when both are resolved every record of the file is an
  extracted item, whose Quantity is absent when no quantity column is resolved and whose
  estimate rate is zero when no rate column is resolved.
\<close>

theorem column_resolver:
  assumes "read_raw file = Inr df_raw"
    and "locate_header df_raw = Some i"
    and "read_with_header file i = Inr df"
  shows "(find_column cols kws = Some c \<longleftrightarrow>
      (\<exists>n<length cols. cols ! n = c \<and> (\<exists>k\<in>set kws. sublist k (lower (py_str c))) \<and>
         (\<forall>j<n. \<not> (\<exists>k\<in>set kws. sublist k (lower (py_str (cols ! j))))))) \<and>
   (find_column cols kws = None \<longleftrightarrow>
      (\<forall>c\<in>set cols. \<not> (\<exists>k\<in>set kws. sublist k (lower (py_str c))))) \<and>
   (find_column (columns df) [''desc'', ''item''] = None \<or>
    find_column (columns df) [''unit''] = None \<longrightarrow>
      process_boq_file file tdr file_name =
        [Diagnostic tdr file_name (warning_sign @ '' Missing required columns'')]) \<and>
   (find_column (columns df) [''desc'', ''item''] = Some d \<and>
    find_column (columns df) [''unit''] = Some u \<longrightarrow>
      (\<forall>r\<in>set (process_boq_file file tdr file_name).
         \<exists>it. r = Extracted it \<and>
           (find_column (columns df) [''qty'', ''quantity''] = None \<longrightarrow> quantity it = Absent) \<and>
           (find_column (columns df) [''rate'', ''amount'', ''estimate''] = None \<longrightarrow>
              estimate_rate it = Zero)))"
proof -
  let ?q = "find_column (columns df) [''qty'', ''quantity'']"
  let ?rt = "find_column (columns df) [''rate'', ''amount'', ''estimate'']"
  have A: "find_column cols kws = Some c \<longleftrightarrow>
      (\<exists>n<length cols. cols ! n = c \<and> (\<exists>k\<in>set kws. sublist k (lower (py_str c))) \<and>
         (\<forall>j<n. \<not> (\<exists>k\<in>set kws. sublist k (lower (py_str (cols ! j))))))"
    by (rule find_column_Some_iff)
  have B: "find_column cols kws = None \<longleftrightarrow>
      (\<forall>c\<in>set cols. \<not> (\<exists>k\<in>set kws. sublist k (lower (py_str c))))"
    by (rule find_column_None_iff)
  have C: "find_column (columns df) [''desc'', ''item''] = None \<or>
    find_column (columns df) [''unit''] = None \<longrightarrow>
      process_boq_file file tdr file_name =
        [Diagnostic tdr file_name (warning_sign @ '' Missing required columns'')]"
  proof
    assume "find_column (columns df) [''desc'', ''item''] = None \<or>
      find_column (columns df) [''unit''] = None"
    with assms show "process_boq_file file tdr file_name =
        [Diagnostic tdr file_name (warning_sign @ '' Missing required columns'')]"
      by (rule process_boq_file_missing)
  qed
  have D: "find_column (columns df) [''desc'', ''item''] = Some d \<and>
    find_column (columns df) [''unit''] = Some u \<longrightarrow>
      (\<forall>r\<in>set (process_boq_file file tdr file_name).
         \<exists>it. r = Extracted it \<and>
           (?q = None \<longrightarrow> quantity it = Absent) \<and> (?rt = None \<longrightarrow> estimate_rate it = Zero))"
  proof (intro impI ballI)
    fix r
    assume du: "find_column (columns df) [''desc'', ''item''] = Some d \<and>
      find_column (columns df) [''unit''] = Some u"
      and r: "r \<in> set (process_boq_file file tdr file_name)"
    from du have d: "find_column (columns df) [''desc'', ''item''] = Some d"
      and u: "find_column (columns df) [''unit''] = Some u" by simp_all
    have "process_boq_file file tdr file_name = extract_items df d u ?q ?rt tdr file_name"
      using assms d u by (rule process_boq_file_success)
    with r have "r \<in> set (extract_items df d u ?q ?rt tdr file_name)" by (simp only:)
    then obtain row where row: "r = Extracted (make_item d u ?q ?rt tdr file_name row)"
      by (auto dest: extract_items_Extracted)
    have "?q = None \<longrightarrow> quantity (make_item d u ?q ?rt tdr file_name row) = Absent"
      by (simp add: make_item_defaults)
    moreover have "?rt = None \<longrightarrow> estimate_rate (make_item d u ?q ?rt tdr file_name row) = Zero"
      by (simp add: make_item_defaults)
    ultimately show "\<exists>it. r = Extracted it \<and>
           (?q = None \<longrightarrow> quantity it = Absent) \<and> (?rt = None \<longrightarrow> estimate_rate it = Zero)"
      using row by (intro exI [of _ "make_item d u ?q ?rt tdr file_name row"]) simp
  qed
  show ?thesis by (intro conjI) (rule A, rule B, rule C, rule D)
qed

theorem column_resolver_witness:
  "find_column [Str ''Sl'', Str ''Description of Item'', Str ''Item rate'', Str ''Unit'']
     [''desc'', ''item''] = Some (Str ''Description of Item'') \<and>
   find_column (columns boq_classes_frame) [''qty'', ''quantity''] = Some (Str ''Qty'') \<and>
   find_column (columns boq_classes_frame) [''rate'', ''amount'', ''estimate''] = Some (Str ''Rate (Rs)'') \<and>
   find_column [Str ''ITEM'', Str ''UNITS''] [''qty'', ''quantity''] = None \<and>
   process_boq_file boq_bare ''T'' ''bare.xls'' =
     [Extracted \<lparr> tdr_folder = ''T'', boq_file = ''bare.xls'',
         item_description = ''CI pipe 90 mm'', k9 = [], k7 = [], dia = Some 90,
         estimate_rate = Zero, units = ''nos'', quantity = Absent \<rparr>] \<and>
   process_boq_file
     \<lparr> read_raw = Inr [[Str ''Item'', Str ''Unit'']],
       read_with_header = (\<lambda>i. Inr \<lparr> columns = [Str ''Item'', Str ''Nos''], rows = [] \<rparr>) \<rparr>
     ''T'' ''odd.xls'' =
     [Diagnostic ''T'' ''odd.xls'' (warning_sign @ '' Missing required columns'')]"
proof -
  let ?odd = "\<lparr> read_raw = Inr [[Str ''Item'', Str ''Unit'']],
       read_with_header = (\<lambda>i. Inr \<lparr> columns = [Str ''Item'', Str ''Nos''], rows = [] \<rparr>) \<rparr>"
  have 1: "read_raw ?odd = Inr [[Str ''Item'', Str ''Unit'']]" by simp
  have 2: "locate_header [[Str ''Item'', Str ''Unit'']] = Some 0" by code_simp
  have 3: "read_with_header ?odd 0 = Inr \<lparr> columns = [Str ''Item'', Str ''Nos''], rows = [] \<rparr>"
    by simp
  have 4: "find_column (columns \<lparr> columns = [Str ''Item'', Str ''Nos''], rows = [] \<rparr>) [''unit''] = None"
    by code_simp
  from column_resolver [OF 1 2 3, of _ _ _ "''T''" "''odd.xls''"] 4
  have odd: "process_boq_file ?odd ''T'' ''odd.xls'' =
     [Diagnostic ''T'' ''odd.xls'' (warning_sign @ '' Missing required columns'')]"
    by blast
  have a: "find_column [Str ''Sl'', Str ''Description of Item'', Str ''Item rate'', Str ''Unit'']
     [''desc'', ''item''] = Some (Str ''Description of Item'')" by code_simp
  have b: "find_column (columns boq_classes_frame) [''qty'', ''quantity''] = Some (Str ''Qty'')"
    by code_simp
  have c: "find_column (columns boq_classes_frame) [''rate'', ''amount'', ''estimate''] =
     Some (Str ''Rate (Rs)'')" by code_simp
  have d: "find_column [Str ''ITEM'', Str ''UNITS''] [''qty'', ''quantity''] = None" by code_simp
  have e: "process_boq_file boq_bare ''T'' ''bare.xls'' =
     [Extracted \<lparr> tdr_folder = ''T'', boq_file = ''bare.xls'',
         item_description = ''CI pipe 90 mm'', k9 = [], k7 = [], dia = Some 90,
         estimate_rate = Zero, units = ''nos'', quantity = Absent \<rparr>]" by code_simp
  from odd a b c d e show ?thesis by blast
qed




end
